theory Spec2Isabelle
  imports Main
begin

section \<open>The grammar DSL\<close>

text \<open>
  The program is \<^verbatim>\<open>grammar.js\<close>: one call \<^verbatim>\<open>grammar({...})\<close> whose argument is a
  data structure built with the combinators \<^verbatim>\<open>seq\<close>, \<^verbatim>\<open>choice\<close>, \<^verbatim>\<open>repeat\<close>,
  \<^verbatim>\<open>repeat1\<close>, \<^verbatim>\<open>optional\<close>, \<^verbatim>\<open>token\<close>, \<^verbatim>\<open>token.immediate\<close>, \<^verbatim>\<open>prec\<close>,
  \<^verbatim>\<open>prec.left\<close>, \<^verbatim>\<open>field\<close> and \<^verbatim>\<open>alias\<close>, string literals, regular expressions and
  references \<^verbatim>\<open>$.name\<close>. The datatype \<open>rule\<close> is that data structure; its constructors
  carry the node names the combinators produce. A regular expression \<^verbatim>\<open>/re/\<close> is
  \<open>PATTERN\<close> applied to the structure of \<^verbatim>\<open>re\<close>, with \<open>CHARS\<close> for a character class.
  A rule the source names \<^verbatim>\<open>_x\<close> is the constant \<open>h_x\<close> here; a name that is taken in
  HOL or in Isar carries the suffix \<open>_rule\<close>. The name of a rule, as \<open>SYMBOL\<close> refers to it, is the constant's with \<open>N_\<close> before it.
\<close>

abbreviation backslash :: char where "backslash \<equiv> CHR 0x5C"
abbreviation dquote :: char where "dquote \<equiv> CHR 0x22"
abbreviation newline :: char where "newline \<equiv> CHR 0x0A"
abbreviation creturn :: char where "creturn \<equiv> CHR 0x0D"

text \<open>The names of the rules and of the external tokens: \<^verbatim>\<open>$.x\<close> is \<open>SYMBOL N_x\<close>.\<close>

datatype (plugins only: code) name =
    N_source_file | N_h_terminator | N_comment | N_end_of_line_comment | N_h_builtin
  | N_after | N_append | N_package | N_regexp | N_regsub | N_regsub_switches
  | N_regsub_switch | N_regsub_literal | N_while | N_expr_cmd | N_foreach | N_global
  | N_namespace | N_try | N_finally | N_h_command | N_command | N_word_list | N_unpack
  | N_h_word | N_h_word_simple | N_h_concat_word | N_h_ns_delim | N_h_ident_imm | N_h_ident
  | N_h_id_immediate | N_id | N_array_index | N_variable_substitution | N_braced_word
  | N_braced_word_simple | N_set | N_procedure | N_h_argument_word | N_argument
  | N_arguments | N_h_number | N_h_boolean | N_h_expr_atom_no_brace | N_h_expr | N_expr
  | N_unary_expr | N_binop_expr | N_ternary_expr | N_elseif | N_else | N_conditional
  | N_catch | N_quoted_word | N_escaped_character | N_h_quoted_word_content
  | N_command_substitution | N_simple_word | N_h_concat | N_h_immediate

datatype cset = OneOf string | NoneOf string

fun cmem :: "cset \<Rightarrow> char \<Rightarrow> bool" where
  "cmem (OneOf cs) c = (c \<in> set cs)"
| "cmem (NoneOf cs) c = (c \<notin> set cs)"

datatype rule =
    BLANK
  | STRING string
  | CHARS cset
  | PATTERN rule
  | SYMBOL name
  | SEQ "rule list"
  | CHOICE "rule list"
  | REPEAT rule
  | REPEAT1 rule
  | TOKEN rule
  | IMMEDIATE_TOKEN rule
  | PREC int rule
  | PREC_LEFT int rule
  | FIELD string rule
  | ALIAS rule name

text \<open>\<^verbatim>\<open>optional(r)\<close> is \<^verbatim>\<open>choice(r, blank())\<close> in the DSL.\<close>

definition optional :: "rule \<Rightarrow> rule" where
  "optional r = CHOICE [r, BLANK]"

text \<open>\<^verbatim>\<open>const interleaved1 = (rule, delim) => seq(rule, repeat(seq(delim, rule)))\<close>\<close>

definition interleaved1 :: "rule \<Rightarrow> rule \<Rightarrow> rule" where
  "interleaved1 r delim = SEQ [r, REPEAT (SEQ [delim, r])]"

subsection \<open>Character classes of the regular expressions\<close>

text \<open>\<^verbatim>\<open>\s\<close>: space, tab, line feed, carriage return, form feed, vertical tab.\<close>

definition whitespace :: string where
  "whitespace = [CHR '' '', CHR 0x09, newline, creturn, CHR 0x0C, CHR 0x0B]"

definition digits :: string where
  "digits = ''0123456789''"

text \<open>\<^verbatim>\<open>[a-zA-Z_]\<close> and \<^verbatim>\<open>[a-zA-Z0-9_]\<close>\<close>

definition letters :: string where
  "letters = ''abcdefghijklmnopqrstuvwxyzABCDEFGHIJKLMNOPQRSTUVWXYZ_''"

definition alnums :: string where
  "alnums = letters @ digits"

subsection \<open>The precedence table\<close>

datatype prec_name =
    after_delay | unary | exp | muldiv | addsub | shift | compare | equal_bool
  | equal_string | contain | and_bit | xor_bit | or_bit | and_logical | or_logical | ternary

text \<open>\<^verbatim>\<open>const PREC = { after_delay: 160, unary: 150, exp: 140, ... }\<close>\<close>

fun PREC_of :: "prec_name \<Rightarrow> int" where
  "PREC_of after_delay = 160"
| "PREC_of unary = 150"
| "PREC_of exp = 140"
| "PREC_of muldiv = 130"
| "PREC_of addsub = 120"
| "PREC_of shift = 110"
| "PREC_of compare = 100"
| "PREC_of equal_bool = 90"
| "PREC_of equal_string = 80"
| "PREC_of contain = 70"
| "PREC_of and_bit = 60"
| "PREC_of xor_bit = 50"
| "PREC_of or_bit = 40"
| "PREC_of and_logical = 30"
| "PREC_of or_logical = 20"
| "PREC_of ternary = 10"

section \<open>The rules of the grammar\<close>

definition source_file :: rule where
  "source_file =
     REPEAT (SEQ [optional (CHOICE [SYMBOL N_comment, SYMBOL N_h_command]),
                  SYMBOL N_h_terminator])"

definition h_terminator :: rule where
  "h_terminator = CHOICE [STRING [newline], STRING '';'']"

text \<open>\<^verbatim>\<open>/#[^\n]*/\<close> and \<^verbatim>\<open>/;(\s+)?#[^\n]*/\<close>\<close>

definition comment :: rule where
  "comment = PATTERN (SEQ [STRING ''#'', REPEAT (CHARS (NoneOf [newline]))])"

definition end_of_line_comment :: rule where
  "end_of_line_comment =
     PATTERN (SEQ [STRING '';'', optional (REPEAT1 (CHARS (OneOf whitespace))),
                   STRING ''#'', REPEAT (CHARS (NoneOf [newline]))])"

definition h_builtin :: rule where
  "h_builtin =
     CHOICE [SYMBOL N_after, SYMBOL N_append, SYMBOL N_catch, SYMBOL N_conditional,
             SYMBOL N_expr_cmd, SYMBOL N_foreach, SYMBOL N_global, SYMBOL N_namespace,
             SYMBOL N_package, SYMBOL N_procedure, SYMBOL N_regexp, SYMBOL N_regsub,
             SYMBOL N_set, SYMBOL N_try, SYMBOL N_while]"

definition after :: rule where
  "after =
     CHOICE [
       PREC (PREC_of after_delay)
         (SEQ [STRING ''after'', SYMBOL N_h_number, optional (SYMBOL N_h_word)]),
       SEQ [STRING ''after'', STRING ''chancel'',
            CHOICE [SYMBOL N_simple_word, REPEAT (SYMBOL N_simple_word)]],
       SEQ [STRING ''after'', STRING ''idle'', REPEAT (SYMBOL N_simple_word)],
       SEQ [STRING ''after'', STRING ''info'', optional (SYMBOL N_simple_word)]]"

definition append_rule :: rule where
  "append_rule =
     PREC_LEFT 0
       (SEQ [STRING ''append'',
             FIELD ''variable'' (SYMBOL N_simple_word),
             REPEAT (FIELD ''value''
               (CHOICE [SYMBOL N_simple_word, SYMBOL N_variable_substitution,
                        SYMBOL N_quoted_word, SYMBOL N_braced_word,
                        SYMBOL N_command_substitution]))])"

definition package :: rule where
  "package =
     PREC_LEFT 0
       (SEQ [STRING ''package'',
             CHOICE [STRING ''forget'', STRING ''ifneeded'', STRING ''names'',
                     STRING ''present'', STRING ''provide'', STRING ''require'',
                     STRING ''unknown'', STRING ''vcompare'', STRING ''versions'',
                     STRING ''vsatisfies''],
             optional (SEQ [optional (STRING ''-exact''), SYMBOL N_simple_word,
                            optional (SYMBOL N_simple_word)])])"

definition regexp :: rule where
  "regexp =
     PREC_LEFT 0
       (SEQ [STRING ''regexp'', SYMBOL N_h_word_simple, SYMBOL N_h_concat_word,
             REPEAT (SYMBOL N_h_concat_word)])"

definition regsub :: rule where
  "regsub =
     PREC_LEFT 0
       (SEQ [TOKEN (PREC 1 (STRING ''regsub'')),
             optional (SYMBOL N_regsub_switches),
             FIELD ''pattern'' (SYMBOL N_regsub_literal),
             FIELD ''input'' (SYMBOL N_h_word),
             FIELD ''substitution'' (SYMBOL N_regsub_literal),
             optional (FIELD ''varName'' (SYMBOL N_simple_word))])"

definition regsub_switches :: rule where
  "regsub_switches = REPEAT1 (SYMBOL N_regsub_switch)"

definition regsub_switch :: rule where
  "regsub_switch =
     PREC_LEFT 0
       (REPEAT1
         (SEQ [CHOICE [STRING ''-all'', STRING ''-expanded'', STRING ''-line'',
                       STRING ''-linestop'', STRING ''-lineanchor'', STRING ''-nocase'',
                       SEQ [STRING ''-start'', SYMBOL N_h_number], STRING ''--''],
               STRING '' '']))"

text \<open>
  \<^verbatim>\<open>choice(token(seq("{", /[^}]*/, "}")), token(seq('"', /[^"]*/, '"')), $.simple_word)\<close>
\<close>

definition regsub_literal :: rule where
  "regsub_literal =
     CHOICE [
       TOKEN (SEQ [STRING ''{'', PATTERN (REPEAT (CHARS (NoneOf ''}''))), STRING ''}'']),
       TOKEN (SEQ [STRING [dquote], PATTERN (REPEAT (CHARS (NoneOf [dquote]))),
                   STRING [dquote]]),
       SYMBOL N_simple_word]"

definition while_rule :: rule where
  "while_rule =
     PREC_LEFT 0
       (SEQ [STRING ''while'',
             CHOICE [SEQ [STRING ''{'', SYMBOL N_h_expr, STRING ''}''], SYMBOL N_expr],
             CHOICE [SYMBOL N_braced_word, SYMBOL N_h_word]])"

definition expr_cmd :: rule where
  "expr_cmd = SEQ [STRING ''expr'', SYMBOL N_expr]"

definition foreach :: rule where
  "foreach =
     PREC_LEFT 0
       (SEQ [STRING ''foreach'',
             REPEAT1 (SEQ [SYMBOL N_h_word, SYMBOL N_h_word]),
             SYMBOL N_h_word])"

definition global :: rule where
  "global = PREC_LEFT 0 (SEQ [STRING ''global'', REPEAT1 (SYMBOL N_simple_word)])"

definition namespace :: rule where
  "namespace =
     PREC_LEFT 0
       (SEQ [STRING ''namespace'',
             CHOICE [
               SEQ [STRING ''children'', optional (SYMBOL N_simple_word),
                    optional (SYMBOL N_simple_word)],
               SEQ [STRING ''code'', SYMBOL N_h_word],
               STRING ''current'',
               SEQ [STRING ''delete'', REPEAT1 (SYMBOL N_simple_word)],
               SEQ [STRING ''eval'', SYMBOL N_simple_word, REPEAT (SYMBOL N_h_word)],
               SEQ [STRING ''exists'', SYMBOL N_simple_word],
               SEQ [STRING ''export'', optional (STRING ''-clear''),
                    REPEAT (SYMBOL N_simple_word)],
               SEQ [STRING ''forget'', REPEAT (SYMBOL N_simple_word)],
               SEQ [STRING ''import'', optional (STRING ''-force''),
                    REPEAT (SYMBOL N_simple_word)],
               SEQ [STRING ''inscope'', SYMBOL N_simple_word, SYMBOL N_h_word,
                    REPEAT (SYMBOL N_h_word)],
               SEQ [STRING ''origin'', SYMBOL N_simple_word],
               SEQ [STRING ''parent'', optional (SYMBOL N_simple_word)],
               SEQ [STRING ''qualifiers'', SYMBOL N_simple_word],
               SEQ [STRING ''tail'', SYMBOL N_simple_word],
               SEQ [STRING ''which'',
                    optional (CHOICE [STRING ''-command'', STRING ''-variable'']),
                    SYMBOL N_simple_word]]])"

definition try_rule :: rule where
  "try_rule =
     SEQ [STRING ''try'', SYMBOL N_h_word,
          optional (SEQ [STRING ''on'', STRING ''error'', SYMBOL N_arguments,
                         SYMBOL N_h_word]),
          optional (SYMBOL N_finally)]"

definition finally_rule :: rule where
  "finally_rule = SEQ [STRING ''finally'', SYMBOL N_h_word]"

definition h_command :: rule where
  "h_command = CHOICE [SYMBOL N_h_builtin, SYMBOL N_command]"

definition command :: rule where
  "command =
     PREC_LEFT 0
       (SEQ [FIELD ''name'' (SYMBOL N_h_word),
             optional (FIELD ''arguments'' (SYMBOL N_word_list))])"

definition word_list :: rule where
  "word_list = PREC_LEFT 0 (REPEAT1 (SYMBOL N_h_word))"

definition unpack :: rule where
  "unpack = STRING ''{*}''"

definition h_word :: rule where
  "h_word =
     SEQ [optional (SYMBOL N_unpack),
          CHOICE [SYMBOL N_braced_word, SYMBOL N_h_concat_word]]"

definition h_word_simple :: rule where
  "h_word_simple =
     interleaved1
       (CHOICE [SYMBOL N_escaped_character, SYMBOL N_command_substitution,
                SYMBOL N_simple_word, SYMBOL N_quoted_word,
                SYMBOL N_variable_substitution, SYMBOL N_braced_word_simple])
       (SYMBOL N_h_concat)"

definition h_concat_word :: rule where
  "h_concat_word =
     interleaved1
       (CHOICE [SYMBOL N_escaped_character, SYMBOL N_command_substitution,
                SEQ [SYMBOL N_simple_word, optional (SYMBOL N_array_index)],
                SYMBOL N_quoted_word, SYMBOL N_variable_substitution])
       (SYMBOL N_h_concat)"

definition h_ns_delim :: rule where
  "h_ns_delim = IMMEDIATE_TOKEN (STRING ''::'')"

text \<open>\<^verbatim>\<open>/[a-zA-Z_][a-zA-Z0-9_]*/\<close>, immediate and not.\<close>

definition h_ident_imm :: rule where
  "h_ident_imm =
     IMMEDIATE_TOKEN (PATTERN (SEQ [CHARS (OneOf letters), REPEAT (CHARS (OneOf alnums))]))"

definition h_ident :: rule where
  "h_ident = PATTERN (SEQ [CHARS (OneOf letters), REPEAT (CHARS (OneOf alnums))])"

definition h_id_immediate :: rule where
  "h_id_immediate =
     SEQ [optional (SYMBOL N_h_ns_delim), SYMBOL N_h_ident_imm,
          REPEAT (SEQ [SYMBOL N_h_ns_delim, SYMBOL N_h_ident_imm])]"

definition id_rule :: rule where
  "id_rule =
     SEQ [CHOICE [SEQ [STRING ''::'', SYMBOL N_h_ident_imm], SYMBOL N_h_ident],
          REPEAT (SEQ [SYMBOL N_h_ns_delim, SYMBOL N_h_ident_imm])]"

definition array_index :: rule where
  "array_index = SEQ [IMMEDIATE_TOKEN (STRING ''(''), SYMBOL N_h_word_simple, STRING '')'']"

definition variable_substitution :: rule where
  "variable_substitution =
     SEQ [STRING ''$'',
          CHOICE [
            SEQ [ALIAS (SYMBOL N_h_id_immediate) N_id],
            SEQ [STRING ''{'',
                 ALIAS (TOKEN (PATTERN (REPEAT1 (CHARS (NoneOf ''}''))))) N_id,
                 STRING ''}'']],
          optional (SYMBOL N_array_index)]"

definition braced_word :: rule where
  "braced_word =
     SEQ [STRING ''{'',
          optional
            (SEQ [interleaved1 (SYMBOL N_h_command) (REPEAT1 (SYMBOL N_h_terminator)),
                  REPEAT (SYMBOL N_h_terminator)]),
          STRING ''}'']"

definition braced_word_simple :: rule where
  "braced_word_simple = SEQ [STRING ''{'', REPEAT (SYMBOL N_h_word_simple), STRING ''}'']"

definition set_rule :: rule where
  "set_rule =
     PREC_LEFT 0
       (SEQ [STRING ''set'',
             CHOICE [
               SEQ [SYMBOL N_id, optional (SYMBOL N_array_index)],
               SEQ [STRING ''$'', STRING ''{'', PATTERN (REPEAT1 (CHARS (NoneOf ''}''))),
                    STRING ''}'']],
             optional (SYMBOL N_h_word_simple)])"

definition procedure :: rule where
  "procedure =
     SEQ [STRING ''proc'', FIELD ''name'' (SYMBOL N_h_word),
          FIELD ''arguments'' (SYMBOL N_arguments), FIELD ''body'' (SYMBOL N_h_word)]"

definition h_argument_word :: rule where
  "h_argument_word =
     CHOICE [SYMBOL N_simple_word, SYMBOL N_quoted_word, SYMBOL N_braced_word]"

definition argument :: rule where
  "argument =
     CHOICE [
       FIELD ''name'' (SYMBOL N_simple_word),
       SEQ [STRING ''{'', FIELD ''name'' (SYMBOL N_simple_word),
            optional (FIELD ''default'' (SYMBOL N_h_argument_word)), STRING ''}'']]"

definition arguments :: rule where
  "arguments =
     CHOICE [SEQ [STRING ''{'', REPEAT (SYMBOL N_argument), STRING ''}''],
             SYMBOL N_simple_word]"

text \<open>
  \<^verbatim>\<open>token(seq(optional(choice("-", "+")), /[0-9]+(\.[0-9]+)?/, optional(/[eE][+-]?[0-9]+/)))\<close>
\<close>

definition h_number :: rule where
  "h_number =
     TOKEN (SEQ [
       optional (CHOICE [STRING ''-'', STRING ''+'']),
       PATTERN (SEQ [REPEAT1 (CHARS (OneOf digits)),
                     optional (SEQ [STRING ''.'', REPEAT1 (CHARS (OneOf digits))])]),
       optional (PATTERN (SEQ [CHARS (OneOf ''eE''), optional (CHARS (OneOf ''+-'')),
                               REPEAT1 (CHARS (OneOf digits))]))])"

text \<open>\<^verbatim>\<open>token(choice("1", "0", /[Tt][Rr][Uu][Ee]/, /[Ff][Aa][Ll][Ss][Ee]/))\<close>\<close>

definition h_boolean :: rule where
  "h_boolean =
     TOKEN (CHOICE [
       STRING ''1'', STRING ''0'',
       PATTERN (SEQ [CHARS (OneOf ''Tt''), CHARS (OneOf ''Rr''), CHARS (OneOf ''Uu''),
                     CHARS (OneOf ''Ee'')]),
       PATTERN (SEQ [CHARS (OneOf ''Ff''), CHARS (OneOf ''Aa''), CHARS (OneOf ''Ll''),
                     CHARS (OneOf ''Ss''), CHARS (OneOf ''Ee'')])])"

definition h_expr_atom_no_brace :: rule where
  "h_expr_atom_no_brace =
     CHOICE [
       SYMBOL N_h_number,
       SYMBOL N_h_boolean,
       SEQ [SYMBOL N_simple_word, STRING ''('', SYMBOL N_h_expr, STRING '')''],
       SYMBOL N_command_substitution,
       SYMBOL N_quoted_word,
       SYMBOL N_variable_substitution]"

definition h_expr :: rule where
  "h_expr =
     CHOICE [
       SYMBOL N_unary_expr,
       SYMBOL N_binop_expr,
       SYMBOL N_ternary_expr,
       SYMBOL N_escaped_character,
       SEQ [STRING ''('', SYMBOL N_h_expr, STRING '')''],
       SYMBOL N_h_expr_atom_no_brace,
       SYMBOL N_command_substitution,
       SYMBOL N_braced_word_simple]"

definition expr :: rule where
  "expr =
     CHOICE [SEQ [STRING ''{'', SYMBOL N_h_expr, STRING ''}''],
             SYMBOL N_h_expr_atom_no_brace]"

definition unary_expr :: rule where
  "unary_expr =
     PREC_LEFT (PREC_of unary)
       (SEQ [CHOICE [STRING ''-'', STRING ''+'', STRING ''~'', STRING ''!''],
             SYMBOL N_h_expr])"

definition binop_expr :: rule where
  "binop_expr =
     CHOICE [
       PREC_LEFT (PREC_of exp) (SEQ [SYMBOL N_h_expr, STRING ''**'', SYMBOL N_h_expr]),
       PREC_LEFT (PREC_of muldiv)
         (SEQ [SYMBOL N_h_expr, CHOICE [STRING ''/'', STRING ''*'', STRING ''%''],
               SYMBOL N_h_expr]),
       PREC_LEFT (PREC_of addsub)
         (SEQ [SYMBOL N_h_expr, CHOICE [STRING ''+'', STRING ''-''], SYMBOL N_h_expr]),
       PREC_LEFT (PREC_of shift)
         (SEQ [SYMBOL N_h_expr, CHOICE [STRING ''<<'', STRING ''>>''], SYMBOL N_h_expr]),
       PREC_LEFT (PREC_of compare)
         (SEQ [SYMBOL N_h_expr,
               CHOICE [STRING ''>'', STRING ''<'', STRING ''>='', STRING ''<=''],
               SYMBOL N_h_expr]),
       PREC_LEFT (PREC_of equal_bool)
         (SEQ [SYMBOL N_h_expr, CHOICE [STRING ''=='', STRING ''!=''], SYMBOL N_h_expr]),
       PREC_LEFT (PREC_of equal_string)
         (SEQ [SYMBOL N_h_expr, CHOICE [STRING ''eq'', STRING ''ne''], SYMBOL N_h_expr]),
       PREC_LEFT (PREC_of contain)
         (SEQ [SYMBOL N_h_expr, CHOICE [STRING ''in'', STRING ''ni''], SYMBOL N_h_expr]),
       PREC_LEFT (PREC_of and_bit) (SEQ [SYMBOL N_h_expr, STRING ''&'', SYMBOL N_h_expr]),
       PREC_LEFT (PREC_of xor_bit) (SEQ [SYMBOL N_h_expr, STRING ''^'', SYMBOL N_h_expr]),
       PREC_LEFT (PREC_of or_bit) (SEQ [SYMBOL N_h_expr, STRING ''|'', SYMBOL N_h_expr]),
       PREC_LEFT (PREC_of and_logical)
         (SEQ [SYMBOL N_h_expr, STRING ''&&'', SYMBOL N_h_expr]),
       PREC_LEFT (PREC_of or_logical)
         (SEQ [SYMBOL N_h_expr, STRING ''||'', SYMBOL N_h_expr])]"

definition ternary_expr :: rule where
  "ternary_expr =
     PREC_LEFT (PREC_of ternary)
       (SEQ [SYMBOL N_h_expr, STRING ''?'', SYMBOL N_h_expr, STRING '':'', SYMBOL N_h_expr])"

definition elseif :: rule where
  "elseif = SEQ [STRING ''elseif'', FIELD ''condition'' (SYMBOL N_expr), SYMBOL N_h_word]"

definition else_rule :: rule where
  "else_rule = SEQ [STRING ''else'', SYMBOL N_h_word]"

definition conditional :: rule where
  "conditional =
     SEQ [STRING ''if'', FIELD ''condition'' (SYMBOL N_expr), SYMBOL N_h_word,
          REPEAT (SYMBOL N_elseif), optional (SYMBOL N_else)]"

definition catch :: rule where
  "catch =
     PREC_LEFT 0 (SEQ [STRING ''catch'', SYMBOL N_h_word, optional (SYMBOL N_h_concat_word)])"

definition quoted_word :: rule where
  "quoted_word =
     CHOICE [
       STRING [dquote, dquote],
       SEQ [STRING [dquote],
            REPEAT (CHOICE [SYMBOL N_variable_substitution, SYMBOL N_h_quoted_word_content,
                            SYMBOL N_command_substitution, SYMBOL N_escaped_character]),
            STRING [dquote]]]"

text \<open>\<^verbatim>\<open>/\\./\<close>: a backslash and any character but a line feed.\<close>

definition escaped_character :: rule where
  "escaped_character = PATTERN (SEQ [STRING [backslash], CHARS (NoneOf [newline])])"

text \<open>\<^verbatim>\<open>token(prec(-1, /[^$\\\[\]"]+/))\<close>\<close>

definition h_quoted_word_content :: rule where
  "h_quoted_word_content =
     TOKEN (PREC (- 1)
       (PATTERN (REPEAT1 (CHARS (NoneOf ([CHR ''$'', backslash, CHR ''['', CHR '']'', dquote]))))))"

definition command_substitution :: rule where
  "command_substitution =
     SEQ [STRING ''['',
          optional (SEQ [SYMBOL N_h_command,
                         REPEAT (CHOICE [SYMBOL N_h_terminator, SYMBOL N_h_command])]),
          STRING '']'']"

text \<open>\<^verbatim>\<open>/[^!$\s\\\[\]{}();"]+/\<close>\<close>

definition simple_word :: rule where
  "simple_word =
     PATTERN (REPEAT1 (CHARS (NoneOf
       ([CHR ''!'', CHR ''$''] @ whitespace @
        [backslash, CHR ''['', CHR '']'', CHR ''{'', CHR ''}'', CHR ''('', CHR '')'', CHR '';'',
         dquote]))))"

text \<open>
  The \<^verbatim>\<open>rules\<close> object: the rule of each name. The source writes the key
  \<^verbatim>\<open>_builtin\<close> twice, with the same value; a JavaScript object keeps one. The two
  external tokens have no rule.
\<close>

primrec rule_of :: "name \<Rightarrow> rule option" where
  "rule_of N_source_file = Some source_file"
| "rule_of N_h_terminator = Some h_terminator"
| "rule_of N_comment = Some comment"
| "rule_of N_end_of_line_comment = Some end_of_line_comment"
| "rule_of N_h_builtin = Some h_builtin"
| "rule_of N_after = Some after"
| "rule_of N_append = Some append_rule"
| "rule_of N_package = Some package"
| "rule_of N_regexp = Some regexp"
| "rule_of N_regsub = Some regsub"
| "rule_of N_regsub_switches = Some regsub_switches"
| "rule_of N_regsub_switch = Some regsub_switch"
| "rule_of N_regsub_literal = Some regsub_literal"
| "rule_of N_while = Some while_rule"
| "rule_of N_expr_cmd = Some expr_cmd"
| "rule_of N_foreach = Some foreach"
| "rule_of N_global = Some global"
| "rule_of N_namespace = Some namespace"
| "rule_of N_try = Some try_rule"
| "rule_of N_finally = Some finally_rule"
| "rule_of N_h_command = Some h_command"
| "rule_of N_command = Some command"
| "rule_of N_word_list = Some word_list"
| "rule_of N_unpack = Some unpack"
| "rule_of N_h_word = Some h_word"
| "rule_of N_h_word_simple = Some h_word_simple"
| "rule_of N_h_concat_word = Some h_concat_word"
| "rule_of N_h_ns_delim = Some h_ns_delim"
| "rule_of N_h_ident_imm = Some h_ident_imm"
| "rule_of N_h_ident = Some h_ident"
| "rule_of N_h_id_immediate = Some h_id_immediate"
| "rule_of N_id = Some id_rule"
| "rule_of N_array_index = Some array_index"
| "rule_of N_variable_substitution = Some variable_substitution"
| "rule_of N_braced_word = Some braced_word"
| "rule_of N_braced_word_simple = Some braced_word_simple"
| "rule_of N_set = Some set_rule"
| "rule_of N_procedure = Some procedure"
| "rule_of N_h_argument_word = Some h_argument_word"
| "rule_of N_argument = Some argument"
| "rule_of N_arguments = Some arguments"
| "rule_of N_h_number = Some h_number"
| "rule_of N_h_boolean = Some h_boolean"
| "rule_of N_h_expr_atom_no_brace = Some h_expr_atom_no_brace"
| "rule_of N_h_expr = Some h_expr"
| "rule_of N_expr = Some expr"
| "rule_of N_unary_expr = Some unary_expr"
| "rule_of N_binop_expr = Some binop_expr"
| "rule_of N_ternary_expr = Some ternary_expr"
| "rule_of N_elseif = Some elseif"
| "rule_of N_else = Some else_rule"
| "rule_of N_conditional = Some conditional"
| "rule_of N_catch = Some catch"
| "rule_of N_quoted_word = Some quoted_word"
| "rule_of N_escaped_character = Some escaped_character"
| "rule_of N_h_quoted_word_content = Some h_quoted_word_content"
| "rule_of N_command_substitution = Some command_substitution"
| "rule_of N_simple_word = Some simple_word"
| "rule_of N_h_concat = None"
| "rule_of N_h_immediate = None"

text \<open>\<^verbatim>\<open>word: ($) => $.simple_word\<close>\<close>

definition word :: rule where
  "word = simple_word"

text \<open>\<^verbatim>\<open>externals: ($) => [$._concat, $._immediate]\<close>\<close>

definition externals :: "name list" where
  "externals = [N_h_concat, N_h_immediate]"

text \<open>\<^verbatim>\<open>extras: ($) => [/\s+/, /\\\r?\n/, $.end_of_line_comment]\<close>\<close>

definition extras :: "rule list" where
  "extras =
     [PATTERN (REPEAT1 (CHARS (OneOf whitespace))),
      PATTERN (SEQ [STRING [backslash], optional (STRING [creturn]), STRING [newline]]),
      end_of_line_comment]"

section \<open>What a rule matches\<close>

text \<open>
  The meaning of the DSL: which texts a rule derives. A matcher takes the text still to be
  read and returns the list of texts that can remain once the rule has matched a prefix of
  it (no result: no match; several: several derivations).

  \<open>scan\<close> matches inside one token, character by character, with nothing skipped.
\<close>

fun scan :: "rule \<Rightarrow> string \<Rightarrow> string list" where
  "scan BLANK s = [s]"
| "scan (STRING w) s = (if take (length w) s = w then [drop (length w) s] else [])"
| "scan (CHARS cs) s = (case s of [] \<Rightarrow> [] | c # t \<Rightarrow> if cmem cs c then [t] else [])"
| "scan (PATTERN r) s = scan r s"
| "scan (SYMBOL x) s = []"
| "scan (SEQ []) s = [s]"
| "scan (SEQ (r # rs)) s = concat (map (scan (SEQ rs)) (scan r s))"
| "scan (CHOICE []) s = []"
| "scan (CHOICE (r # rs)) s = scan r s @ scan (CHOICE rs) s"
| scan_REPEAT: "scan (REPEAT r) s =
     s # concat (map (\<lambda>t. if length t < length s then scan (REPEAT r) t else []) (scan r s))"
| scan_REPEAT1: "scan (REPEAT1 r) s =
     concat (map (\<lambda>t. t # (if length t < length s then scan (REPEAT1 r) t else [])) (scan r s))"
| "scan (TOKEN r) s = scan r s"
| "scan (IMMEDIATE_TOKEN r) s = scan r s"
| "scan (PREC p r) s = scan r s"
| "scan (PREC_LEFT p r) s = scan r s"
| "scan (FIELD f r) s = scan r s"
| "scan (ALIAS r a) s = scan r s"

declare scan_REPEAT [simp del] scan_REPEAT1 [simp del]

text \<open>A token is the longest match of its rule: of the texts that can remain, the shortest.\<close>

fun shortest :: "string \<Rightarrow> string list \<Rightarrow> string" where
  "shortest a [] = a"
| "shortest a (b # bs) = shortest (if length b < length a then b else a) bs"

definition munch :: "rule \<Rightarrow> string \<Rightarrow> string list" where
  "munch r s = (case scan r s of [] \<Rightarrow> [] | a # as \<Rightarrow> [shortest a as])"

text \<open>
  Extras may stand before any token that is not immediate: \<open>skip s\<close> lists \<open>s\<close> and every
  text left of \<open>s\<close> after one or more extras.
\<close>

function skip :: "string \<Rightarrow> string list" where
  "skip s =
     s # concat (map (\<lambda>t. if length t < length s then skip t else [])
                     (concat (map (\<lambda>e. munch e s) extras)))"
  by pat_completeness auto
termination
  by (relation "measure length") auto

declare skip.simps [simp del]

text \<open>
  A string literal that the \<^verbatim>\<open>word\<close> token matches and that starts with a letter or an
  underscore is a keyword: the lexer reads the word token and then compares, so the
  keyword matches only where the word token matches no more than the keyword.
\<close>

definition keyword :: "string \<Rightarrow> bool" where
  "keyword w = (case w of [] \<Rightarrow> False | c # _ \<Rightarrow> c \<in> set letters \<and> [] \<in> set (scan word w))"

definition literal :: "string \<Rightarrow> string \<Rightarrow> string list" where
  "literal w s =
     (if take (length w) s = w
      then (if keyword w
            then (if list_all (\<lambda>t. length s - length w \<le> length t) (scan word s)
                  then [drop (length w) s] else [])
            else [drop (length w) s])
      else [])"

text \<open>
  Modelled from the spec: the external scanner, which is not among the source files. Of the
  two external tokens the rules use \<^verbatim>\<open>_concat\<close> only. The spec has adjacent fragments
  form one word exactly when nothing skippable separates them (whitespace and line
  continuations are "significant inside word boundaries: their absence is what allows
  concatenation"), so \<^verbatim>\<open>_concat\<close> is the empty token that is found where no extra starts.
\<close>

definition scanner :: "name \<Rightarrow> string \<Rightarrow> string list" where
  "scanner x s = (if x = N_h_concat \<and> skip s = [s] then [s] else [])"

text \<open>
  \<open>run n r s\<close> matches the rule \<open>r\<close> against \<open>s\<close>, following at most \<open>n\<close> nested references
  \<^verbatim>\<open>$.name\<close> (the grammar is left recursive, so the depth of a derivation is bounded
  explicitly). Precedences, fields and aliases do not change what is matched.
\<close>

function run :: "nat \<Rightarrow> rule \<Rightarrow> string \<Rightarrow> string list" where
  "run n BLANK s = [s]"
| "run n (STRING w) s = concat (map (literal w) (skip s))"
| "run n (CHARS cs) s = []"
| "run n (PATTERN r) s = concat (map (munch r) (skip s))"
| "run n (TOKEN r) s = concat (map (munch r) (skip s))"
| "run n (IMMEDIATE_TOKEN r) s = munch r s"
| run_SYMBOL: "run n (SYMBOL x) s =
     (if x \<in> set externals then scanner x s
      else (case n of 0 \<Rightarrow> []
            | Suc m \<Rightarrow> (case rule_of x of None \<Rightarrow> [] | Some r \<Rightarrow> run m r s)))"
| "run n (SEQ []) s = [s]"
| "run n (SEQ (r # rs)) s = concat (map (run n (SEQ rs)) (run n r s))"
| "run n (CHOICE []) s = []"
| "run n (CHOICE (r # rs)) s = run n r s @ run n (CHOICE rs) s"
| run_REPEAT: "run n (REPEAT r) s =
     s # concat (map (\<lambda>t. if length t < length s then run n (REPEAT r) t else []) (run n r s))"
| run_REPEAT1: "run n (REPEAT1 r) s =
     concat (map (\<lambda>t. t # (if length t < length s then run n (REPEAT1 r) t else []))
                 (run n r s))"
| "run n (PREC p r) s = run n r s"
| "run n (PREC_LEFT p r) s = run n r s"
| "run n (FIELD f r) s = run n r s"
| "run n (ALIAS r a) s = run n r s"
  by pat_completeness auto
termination
  by (relation "measures [fst, size \<circ> fst \<circ> snd, length \<circ> snd \<circ> snd]") auto

declare run_REPEAT [simp del] run_REPEAT1 [simp del]

text \<open>
  A text is finished when only extras are left of it. A rule accepts a text when some
  derivation reads all of it, up to trailing extras.
\<close>

definition finished :: "string \<Rightarrow> bool" where
  "finished t = ([] \<in> set (skip t))"

definition accepts :: "nat \<Rightarrow> rule \<Rightarrow> string \<Rightarrow> bool" where
  "accepts n r s = list_ex finished (run n r s)"

section \<open>How the generated parser groups binary operators\<close>

text \<open>
  Every alternative of \<^verbatim>\<open>binop_expr\<close> is \<^verbatim>\<open>prec.left(p, seq($._expr, op, $._expr))\<close>, so
  the rule alone derives every grouping of a chain of operators. Which grouping the
  generated parser builds is decided by the precedences: \<open>productions\<close> reads them off the
  rule, one entry per operator.
\<close>

datatype assoc = AssocNone | AssocLeft

fun operators :: "rule \<Rightarrow> string list" where
  "operators (STRING w) = [w]"
| "operators (CHOICE rs) = concat (map operators rs)"
| "operators r = []"

fun productions :: "rule \<Rightarrow> (string \<times> int \<times> assoc) list" where
  "productions (CHOICE rs) = concat (map productions rs)"
| "productions (PREC_LEFT p (SEQ [l, ops, r])) = map (\<lambda>w. (w, p, AssocLeft)) (operators ops)"
| "productions (PREC p (SEQ [l, ops, r])) = map (\<lambda>w. (w, p, AssocNone)) (operators ops)"
| "productions r = []"

definition binops :: "(string \<times> int \<times> assoc) list" where
  "binops = productions binop_expr"

text \<open>
  The generated parser is an LR parser. Having read \<^verbatim>\<open>_expr op1 _expr\<close> and looking at a
  further operator \<^verbatim>\<open>op2\<close>, it can reduce the production of \<^verbatim>\<open>op1\<close> or shift \<^verbatim>\<open>op2\<close>
  into a production of its own. The DSL resolves this when the parser is generated:
  \<^verbatim>\<open>prec\<close> prefers the production with the higher number, and between equal numbers
  \<^verbatim>\<open>prec.left\<close> prefers the production that ends earlier, which is the reduction. Equal
  numbers with no associativity are a conflict, and no parser is generated.
\<close>

datatype action = Shift | Reduce | Conflict

definition resolve :: "int \<times> assoc \<Rightarrow> int \<Rightarrow> action" where
  "resolve red p2 =
     (case red of (p1, a) \<Rightarrow>
        if p2 < p1 then Reduce
        else if p1 < p2 then Shift
        else (case a of AssocLeft \<Rightarrow> Reduce | AssocNone \<Rightarrow> Conflict))"

datatype expr_token = TOperand string | TOperator string

datatype expr_tree = Operand string | Binary string expr_tree expr_tree

text \<open>
  The parser's run over operands and binary operators: \<open>st\<close> holds the left operands that
  wait for their right operand, each with its operator, the innermost first; \<open>e\<close> is the
  operand just completed.
\<close>

function sr :: "(expr_tree \<times> string) list \<Rightarrow> expr_tree \<Rightarrow> expr_token list \<Rightarrow> expr_tree option" where
  "sr [] e [] = Some e"
| "sr ((l, op1) # st) e [] = sr st (Binary op1 l e) []"
| "sr [] e (TOperator op2 # TOperand a # ts) =
     (case map_of binops op2 of None \<Rightarrow> None | Some q \<Rightarrow> sr [(e, op2)] (Operand a) ts)"
| "sr ((l, op1) # st) e (TOperator op2 # TOperand a # ts) =
     (case map_of binops op1 of None \<Rightarrow> None
      | Some red \<Rightarrow>
          (case map_of binops op2 of None \<Rightarrow> None
           | Some (p2, a2) \<Rightarrow>
               (case resolve red p2 of
                  Reduce \<Rightarrow> sr st (Binary op1 l e) (TOperator op2 # TOperand a # ts)
                | Shift \<Rightarrow> sr ((e, op2) # (l, op1) # st) (Operand a) ts
                | Conflict \<Rightarrow> None)))"
| "sr st e [TOperator op2] = None"
| "sr st e (TOperator op2 # TOperator b # ts) = None"
| "sr st e (TOperand a # ts) = None"
  by pat_completeness auto
termination
  by (relation "measure (\<lambda>(st, e, ts). 2 * length ts + length st)") auto

definition parse_expr :: "expr_token list \<Rightarrow> expr_tree option" where
  "parse_expr ts = (case ts of TOperand a # ts' \<Rightarrow> sr [] (Operand a) ts' | _ \<Rightarrow> None)"

text \<open>
  The precedence table of the spec (section 4.3), binary operators only: the level of an
  operator, as the spec's words have it.
\<close>

definition spec_levels :: "(nat \<times> string list) list" where
  "spec_levels =
     [(14, [''**'']), (13, [''*'', ''/'', ''%'']), (12, [''+'', ''-'']),
      (11, [''<<'', ''>>'']), (10, [''>'', ''<'', ''>='', ''<='']), (9, [''=='', ''!='']),
      (8, [''eq'', ''ne'']), (7, [''in'', ''ni'']), (6, [''&'']), (5, [''^'']), (4, [''|'']),
      (3, [''&&'']), (2, [''||''])]"

definition spec_level :: "string \<Rightarrow> nat option" where
  "spec_level w = map_option fst (find (\<lambda>(l, ws). w \<in> set ws) spec_levels)"

section \<open>The subcommands of a builtin\<close>



section \<open>The characters of an identifier\<close>


section \<open>Evaluating the matcher\<close>

lemmas tok_defs =
  munch_def literal_def keyword_def word_def simple_word_def extras_def
  end_of_line_comment_def whitespace_def digits_def letters_def alnums_def optional_def
  externals_def skip.simps scan_REPEAT scan_REPEAT1 run_REPEAT run_REPEAT1

lemmas word_defs =
  h_word_simple_def h_concat_word_def interleaved1_def escaped_character_def
  command_substitution_def quoted_word_def variable_substitution_def braced_word_simple_def
  h_id_immediate_def h_ns_delim_def h_ident_imm_def h_ident_def id_rule_def array_index_def
  scanner_def

lemmas eval_del = concat_eq_Nil_conv Nil_eq_concat_conv


text \<open>
  With the depth left open, the matcher is evaluated by rewriting. Two rules of the list
  library would turn \<open>concat (map f xs) = []\<close> into a statement about \<open>f\<close> at an
  unknown text, where the rewriting of a recursive rule does not end; they are left out.
\<close>

section \<open>The \<^verbatim>\<open>after\<close> builtin\<close>

text \<open>
  C1. The spec gives \<^verbatim>\<open>after\<close> four forms, one of them \<^verbatim>\<open>after cancel id-or-script...\<close>.
  The rule spells the keyword of that form \<^verbatim>\<open>chancel\<close> (beside the comment
  "after cancel id/script"): at no depth does the rule derive any prefix of
  \<^verbatim>\<open>after cancel foo\<close>, while it accepts \<^verbatim>\<open>after chancel foo\<close>.
\<close>

theorem after_cancel_not_parsed:
  "run n after ''after cancel foo'' = [] \<and> accepts 2 after ''after chancel foo''"
proof
  show "run n after ''after cancel foo'' = []"
    by (simp add: after_def tok_defs h_number_def split: nat.split)
  show "accepts 2 after ''after chancel foo''"
    by code_simp
qed

section \<open>Tokens\<close>

lemma shortest_mem: "shortest a as \<in> set (a # as)"
  by (induction as arbitrary: a) (auto split: if_splits)

lemma munch_subset: "t \<in> set (munch r s) \<Longrightarrow> t \<in> set (scan r s)"
proof (cases "scan r s")
  case Nil
  assume "t \<in> set (munch r s)"
  with Nil show ?thesis by (simp add: munch_def)
next
  case (Cons a as)
  assume "t \<in> set (munch r s)"
  with Cons have "t = shortest a as" by (simp add: munch_def)
  with shortest_mem [of a as] Cons show ?thesis by simp
qed

lemma munch_unique:
  assumes "t \<in> set (scan r s)" and "\<And>x. x \<in> set (scan r s) \<Longrightarrow> x = t"
  shows "munch r s = [t]"
proof (cases "scan r s")
  case Nil
  with assms(1) show ?thesis by simp
next
  case (Cons a as)
  have "shortest a as \<in> set (scan r s)"
    using shortest_mem [of a as] Cons by simp
  then have "shortest a as = t" by (rule assms(2))
  with Cons show ?thesis by (simp add: munch_def)
qed

lemma scan_STRING: "t \<in> set (scan (STRING w) s) \<longleftrightarrow> s = w @ t"
proof
  assume "t \<in> set (scan (STRING w) s)"
  then have "take (length w) s = w" and "t = drop (length w) s"
    by (auto split: if_splits)
  then show "s = w @ t"
    by (metis append_take_drop_id)
next
  assume "s = w @ t"
  then show "t \<in> set (scan (STRING w) s)" by simp
qed

lemma scan_star_Nil: "scan (REPEAT (CHARS cs)) [] = [[]]"
  by (simp add: scan_REPEAT)

lemma scan_star_Cons:
  "scan (REPEAT (CHARS cs)) (c # s) =
     (c # s) # (if cmem cs c then scan (REPEAT (CHARS cs)) s else [])"
  by (simp add: scan_REPEAT)

lemma scan_plus_Nil: "scan (REPEAT1 (CHARS cs)) [] = []"
  by (simp add: scan_REPEAT1)

lemma scan_plus_Cons:
  "scan (REPEAT1 (CHARS cs)) (c # s) =
     (if cmem cs c then s # scan (REPEAT1 (CHARS cs)) s else [])"
  by (simp add: scan_REPEAT1)

lemma scan_star_chars:
  "t \<in> set (scan (REPEAT (CHARS cs)) s) \<longleftrightarrow> (\<exists>b. s = b @ t \<and> list_all (cmem cs) b)"
proof (induction s)
  case Nil
  then show ?case by (auto simp: scan_star_Nil)
next
  case (Cons c s)
  show ?case
  proof
    assume "t \<in> set (scan (REPEAT (CHARS cs)) (c # s))"
    then consider "t = c # s" | "cmem cs c" and "t \<in> set (scan (REPEAT (CHARS cs)) s)"
      by (auto simp: scan_star_Cons split: if_splits)
    then show "\<exists>b. c # s = b @ t \<and> list_all (cmem cs) b"
    proof cases
      case 1
      then show ?thesis by auto
    next
      case 2
      with Cons.IH obtain b where "s = b @ t" "list_all (cmem cs) b" by auto
      with 2 have "c # s = (c # b) @ t \<and> list_all (cmem cs) (c # b)" by simp
      then show ?thesis by blast
    qed
  next
    assume "\<exists>b. c # s = b @ t \<and> list_all (cmem cs) b"
    then obtain b where b: "c # s = b @ t" "list_all (cmem cs) b" by blast
    show "t \<in> set (scan (REPEAT (CHARS cs)) (c # s))"
    proof (cases b)
      case Nil
      with b have "t = c # s" by simp
      then show ?thesis by (simp add: scan_star_Cons)
    next
      case (Cons d b')
      with b have "d = c" "s = b' @ t" "cmem cs c" "list_all (cmem cs) b'" by auto
      with Cons.IH show ?thesis by (auto simp: scan_star_Cons)
    qed
  qed
qed

lemma scan_plus_chars:
  "t \<in> set (scan (REPEAT1 (CHARS cs)) s) \<longleftrightarrow>
     (\<exists>b. b \<noteq> [] \<and> s = b @ t \<and> list_all (cmem cs) b)"
proof (induction s)
  case Nil
  then show ?case by (auto simp: scan_plus_Nil)
next
  case (Cons c s)
  show ?case
  proof
    assume "t \<in> set (scan (REPEAT1 (CHARS cs)) (c # s))"
    then have c: "cmem cs c" and "t = s \<or> t \<in> set (scan (REPEAT1 (CHARS cs)) s)"
      by (auto simp: scan_plus_Cons split: if_splits)
    then consider "t = s" | "t \<in> set (scan (REPEAT1 (CHARS cs)) s)" by blast
    then show "\<exists>b. b \<noteq> [] \<and> c # s = b @ t \<and> list_all (cmem cs) b"
    proof cases
      case 1
      with c have "[c] \<noteq> [] \<and> c # s = [c] @ t \<and> list_all (cmem cs) [c]" by simp
      then show ?thesis by blast
    next
      case 2
      with Cons.IH obtain b where "s = b @ t" "list_all (cmem cs) b" by auto
      with c have "c # b \<noteq> [] \<and> c # s = (c # b) @ t \<and> list_all (cmem cs) (c # b)" by simp
      then show ?thesis by blast
    qed
  next
    assume "\<exists>b. b \<noteq> [] \<and> c # s = b @ t \<and> list_all (cmem cs) b"
    then obtain b where b: "b \<noteq> []" "c # s = b @ t" "list_all (cmem cs) b" by blast
    then obtain b' where b': "b = c # b'" "s = b' @ t" "cmem cs c" "list_all (cmem cs) b'"
      by (cases b) auto
    show "t \<in> set (scan (REPEAT1 (CHARS cs)) (c # s))"
    proof (cases b')
      case Nil
      with b' show ?thesis by (simp add: scan_plus_Cons)
    next
      case (Cons d b'')
      with b' Cons.IH have "t \<in> set (scan (REPEAT1 (CHARS cs)) s)" by blast
      with b' show ?thesis by (auto simp: scan_plus_Cons)
    qed
  qed
qed


lemma no_sep_unique:
  assumes "b @ x # t = b' @ x # t'" and "x \<notin> set b" and "x \<notin> set b'"
  shows "b = b' \<and> t = t'"
proof -
  have "takeWhile (\<lambda>c. c \<noteq> x) (b @ x # t) = b"
    using assms(2) by (auto simp: takeWhile_tail takeWhile_eq_all_conv)
  moreover have "takeWhile (\<lambda>c. c \<noteq> x) (b' @ x # t') = b'"
    using assms(3) by (auto simp: takeWhile_tail takeWhile_eq_all_conv)
  ultimately have "b = b'" using assms(1) by simp
  with assms(1) show ?thesis by simp
qed

lemma scan_SEQ3:
  "t \<in> set (scan (SEQ [a, b, c]) s) \<longleftrightarrow>
     (\<exists>u v. u \<in> set (scan a s) \<and> v \<in> set (scan b u) \<and> t \<in> set (scan c v))"
  by auto

lemma scan_delimited:
  "t \<in> set (scan (SEQ [STRING [l], PATTERN (REPEAT (CHARS (NoneOf [x]))), STRING [x]]) s) \<longleftrightarrow>
     (\<exists>b. s = l # b @ x # t \<and> x \<notin> set b)"
proof -
  have "t \<in> set (scan (SEQ [STRING [l], PATTERN (REPEAT (CHARS (NoneOf [x]))), STRING [x]]) s) \<longleftrightarrow>
      (\<exists>u v. s = [l] @ u \<and> v \<in> set (scan (REPEAT (CHARS (NoneOf [x]))) u) \<and> v = [x] @ t)"
    unfolding scan_SEQ3 scan_STRING by simp
  also have "\<dots> \<longleftrightarrow> (\<exists>b. s = l # b @ x # t \<and> x \<notin> set b)"
    unfolding scan_star_chars by (auto simp: list_all_iff)
  finally show ?thesis .
qed

lemma munch_delimited:
  "t \<in> set (munch (SEQ [STRING [l], PATTERN (REPEAT (CHARS (NoneOf [x]))), STRING [x]]) s) \<longleftrightarrow>
     (\<exists>b. s = l # b @ x # t \<and> x \<notin> set b)"
  (is "t \<in> set (munch ?r s) \<longleftrightarrow> ?R")
proof
  assume "t \<in> set (munch ?r s)"
  then show ?R using munch_subset scan_delimited by blast
next
  assume ?R
  then obtain b where b: "s = l # b @ x # t" "x \<notin> set b" by blast
  then have 1: "t \<in> set (scan ?r s)" using scan_delimited by blast
  have "y = t" if "y \<in> set (scan ?r s)" for y
  proof -
    from that obtain b' where "s = l # b' @ x # y" "x \<notin> set b'"
      using scan_delimited by blast
    with b show ?thesis using no_sep_unique [of b x t b' y] by simp
  qed
  with 1 have "munch ?r s = [t]" by (rule munch_unique)
  then show "t \<in> set (munch ?r s)" by simp
qed


section \<open>The operands of \<^verbatim>\<open>regsub\<close>\<close>

text \<open>
  C9. A parse of \<^verbatim>\<open>regsub_literal\<close> is a brace token, a quote token or a simple word.
  The brace token is exactly an opening brace, a possibly empty run of characters none of
  which is a closing brace, and a closing brace (after any extras that stand before the
  token); the quote token is the same between two double quotes. So of the nested
  \<^verbatim>\<open>{a{b}c}\<close> a literal covers \<^verbatim>\<open>{a{b}\<close> and never the whole, and of a quoted literal
  with an escaped quote inside it covers the part up to that quote.
\<close>

theorem regsub_literal_shape:
  "(t \<in> set (run n regsub_literal s) \<longleftrightarrow>
      (\<exists>u\<in>set (skip s). \<exists>b. u = ''{'' @ b @ ''}'' @ t \<and> CHR ''}'' \<notin> set b)
    \<or> (\<exists>u\<in>set (skip s). \<exists>b. u = [dquote] @ b @ [dquote] @ t \<and> dquote \<notin> set b)
    \<or> t \<in> set (run n (SYMBOL N_simple_word) s))
   \<and> run n regsub_literal ''{a{b}c}'' = [''c}'']
   \<and> run n regsub_literal [dquote, CHR ''a'', backslash, dquote, CHR ''b'', dquote] =
       [[CHR ''b'', dquote]]"
proof (intro conjI)
  show "t \<in> set (run n regsub_literal s) \<longleftrightarrow>
      (\<exists>u\<in>set (skip s). \<exists>b. u = ''{'' @ b @ ''}'' @ t \<and> CHR ''}'' \<notin> set b)
    \<or> (\<exists>u\<in>set (skip s). \<exists>b. u = [dquote] @ b @ [dquote] @ t \<and> dquote \<notin> set b)
    \<or> t \<in> set (run n (SYMBOL N_simple_word) s)"
    unfolding regsub_literal_def
    by (simp add: munch_delimited del: run_SYMBOL)
  show "run n regsub_literal ''{a{b}c}'' = [''c}'']"
    by (simp add: regsub_literal_def tok_defs split: nat.split)
  show "run n regsub_literal [dquote, CHR ''a'', backslash, dquote, CHR ''b'', dquote] =
       [[CHR ''b'', dquote]]"
    by (simp add: regsub_literal_def tok_defs split: nat.split)
qed

theorem regsub_literal_shape_witness:
  "'' x'' \<in> set (run 0 regsub_literal ''{a b} x'')"
proof -
  have "''{a b} x'' \<in> set (skip ''{a b} x'')"
    by (simp add: skip.simps)
  moreover have "''{a b} x'' = ''{'' @ ''a b'' @ ''}'' @ '' x'' \<and> CHR ''}'' \<notin> set ''a b''"
    by simp
  ultimately have
    "\<exists>u\<in>set (skip ''{a b} x''). \<exists>b. u = ''{'' @ b @ ''}'' @ '' x'' \<and> CHR ''}'' \<notin> set b"
    by blast
  with regsub_literal_shape [of "'' x''" 0 "''{a b} x''"] show ?thesis
    by blast
qed

section \<open>Binary operators\<close>

lemma binops_eq:
  "binops =
    [(''**'', 140, AssocLeft), (''/'', 130, AssocLeft), (''*'', 130, AssocLeft),
     (''%'', 130, AssocLeft), (''+'', 120, AssocLeft), (''-'', 120, AssocLeft),
     (''<<'', 110, AssocLeft), (''>>'', 110, AssocLeft), (''>'', 100, AssocLeft),
     (''<'', 100, AssocLeft), (''>='', 100, AssocLeft), (''<='', 100, AssocLeft),
     (''=='', 90, AssocLeft), (''!='', 90, AssocLeft), (''eq'', 80, AssocLeft),
     (''ne'', 80, AssocLeft), (''in'', 70, AssocLeft), (''ni'', 70, AssocLeft),
     (''&'', 60, AssocLeft), (''^'', 50, AssocLeft), (''|'', 40, AssocLeft),
     (''&&'', 30, AssocLeft), (''||'', 20, AssocLeft)]"
  by (simp add: binops_def binop_expr_def)

lemma spec_levels_binops:
  "list_all (\<lambda>(l, ws). list_all (\<lambda>w. map_of binops w = Some (10 * int l, AssocLeft)) ws)
     spec_levels"
  unfolding binops_eq spec_levels_def by simp

lemma spec_level_binops:
  assumes "spec_level w = Some l"
  shows "map_of binops w = Some (10 * int l, AssocLeft)"
proof -
  from assms obtain ws where "find (\<lambda>(l, ws). w \<in> set ws) spec_levels = Some (l, ws)"
    by (auto simp: spec_level_def)
  then have "(l, ws) \<in> set spec_levels" and "w \<in> set ws"
    by (auto simp: find_Some_iff in_set_conv_nth)
  with spec_levels_binops show ?thesis
    by (auto simp: list_all_iff)
qed


text \<open>
  C2. \<^verbatim>\<open>**\<close> is left associative: for all operands, the chain \<^verbatim>\<open>a ** b ** c\<close> is grouped
  as \<^verbatim>\<open>(a ** b) ** c\<close>; so \<^verbatim>\<open>2 ** 3 ** 2\<close> is \<open>Binary(**, Binary(**, 2, 3), 2)\<close>.
\<close>

theorem exp_left_assoc:
  "parse_expr [TOperand a, TOperator ''**'', TOperand b, TOperator ''**'', TOperand c] =
     Some (Binary ''**'' (Binary ''**'' (Operand a) (Operand b)) (Operand c))"
proof -
  have "map_of binops ''**'' = Some (140, AssocLeft)"
    by (simp add: binops_eq)
  then show ?thesis
    by (simp add: parse_expr_def resolve_def)
qed


theorem exp_left_assoc_witness:
  "parse_expr [TOperand ''2'', TOperator ''**'', TOperand ''3'', TOperator ''**'', TOperand ''2''] =
     Some (Binary ''**'' (Binary ''**'' (Operand ''2'') (Operand ''3'')) (Operand ''2''))"
  using exp_left_assoc [of "''2''" "''3''" "''2''"] by simp


text \<open>
  C3. An operator on a higher level of the spec's table binds tighter than one on a lower
  level, on whichever side it stands: \<^verbatim>\<open>a op2 b op1 c\<close> is \<^verbatim>\<open>a op2 (b op1 c)\<close> and
  \<^verbatim>\<open>a op1 b op2 c\<close> is \<^verbatim>\<open>(a op1 b) op2 c\<close> when \<^verbatim>\<open>op1\<close> is on the higher level. So
  \<^verbatim>\<open>1 + 2 * 3\<close> is \<open>Binary(+, 1, Binary(*, 2, 3))\<close>.
\<close>

theorem higher_level_binds_tighter:
  assumes "spec_level op1 = Some l1" and "spec_level op2 = Some l2" and "l2 < l1"
  shows "parse_expr [TOperand a, TOperator op2, TOperand b, TOperator op1, TOperand c] =
           Some (Binary op2 (Operand a) (Binary op1 (Operand b) (Operand c)))
       \<and> parse_expr [TOperand a, TOperator op1, TOperand b, TOperator op2, TOperand c] =
           Some (Binary op2 (Binary op1 (Operand a) (Operand b)) (Operand c))"
  using spec_level_binops [OF assms(1)] spec_level_binops [OF assms(2)] assms(3)
  by (simp add: parse_expr_def resolve_def)


theorem higher_level_binds_tighter_witness:
  "spec_level ''*'' = Some 13 \<and> spec_level ''+'' = Some 12 \<and> (12::nat) < 13
   \<and> parse_expr [TOperand ''1'', TOperator ''+'', TOperand ''2'', TOperator ''*'', TOperand ''3''] =
       Some (Binary ''+'' (Operand ''1'') (Binary ''*'' (Operand ''2'') (Operand ''3'')))
   \<and> parse_expr [TOperand ''1'', TOperator ''*'', TOperand ''2'', TOperator ''+'', TOperand ''3''] =
       Some (Binary ''+'' (Binary ''*'' (Operand ''1'') (Operand ''2'')) (Operand ''3''))"
proof -
  have 1: "spec_level ''*'' = Some 13" by (simp add: spec_level_def spec_levels_def)
  have 2: "spec_level ''+'' = Some 12" by (simp add: spec_level_def spec_levels_def)
  have 3: "(12::nat) < 13" by simp
  from higher_level_binds_tighter [OF 1 2 3, of "''1''" "''2''" "''3''"] 1 2 3
  show ?thesis by simp
qed

section \<open>The \<^verbatim>\<open>namespace\<close> builtin\<close>














section \<open>Words, variables and identifiers\<close>

text \<open>
  C10. The name between the braces of \<^verbatim>\<open>${name}\<close> is \<^verbatim>\<open>/[^}]+/\<close>: at least one
  character. Whatever follows it, \<^verbatim>\<open>${}\<close> is no variable substitution at any depth,
  and \<^verbatim>\<open>set ${}\<close> is no \<^verbatim>\<open>set\<close>; with one character between the braces both are
  accepted.
\<close>

theorem braced_name_nonempty:
  "run n variable_substitution (''${}'' @ rest) = []
   \<and> run n set_rule (''set ${}'' @ rest) = []
   \<and> accepts 0 variable_substitution ''${x}''
   \<and> accepts 0 set_rule ''set ${x}''"
proof (intro conjI)
  show "run n variable_substitution (''${}'' @ rest) = []"
    by (simp add: tok_defs word_defs del: eval_del split: nat.split)
  show "run n set_rule (''set ${}'' @ rest) = []"
    by (simp add: set_rule_def tok_defs word_defs del: eval_del split: nat.split)
  show "accepts 0 variable_substitution ''${x}''"
    by code_simp
  show "accepts 0 set_rule ''set ${x}''"
    by code_simp
qed

theorem braced_name_nonempty_witness:
  "run 3 variable_substitution ''${} 1'' = [] \<and> run 3 set_rule ''set ${} 1'' = []"
  using braced_name_nonempty [of 3 "'' 1''"] by simp











text \<open>
  The rule \<^verbatim>\<open>set\<close> also derives the other reading of \<^verbatim>\<open>set a::b 1\<close>: the identifier
  \<^verbatim>\<open>a\<close> and the value word \<^verbatim>\<open>::b\<close>, a simple word, which as a token is longer than
  the separator. Which of two tokens the generated lexer takes where the parser allows
  both is decided when the parser is generated; the matcher here lists the derivations of
  the rules and does not choose between them.
\<close>

lemma set_target_readings:
  "''::b 1'' \<in> set (run 2 (SEQ [STRING ''set'', SYMBOL N_id]) ''set a::b 1'')
   \<and> '' 1'' \<in> set (run 1 (SYMBOL N_simple_word) ''::b 1'')
   \<and> munch (STRING ''::'') ''::b 1'' = [''b 1'']"
  by code_simp



section \<open>The \<^verbatim>\<open>expr\<close> command\<close>

lemmas expr_defs = expr_cmd_def expr_def h_expr_atom_no_brace_def h_number_def h_boolean_def

lemma expr_unbraced:
  assumes "run n (STRING ''{'') s = []"
  shows "run (Suc n) expr s =
      run n (SYMBOL N_h_number) s @ run n (SYMBOL N_h_boolean) s
        @ run n (SEQ [SYMBOL N_simple_word, STRING ''('', SYMBOL N_h_expr, STRING '')'']) s
        @ run n (SYMBOL N_command_substitution) s @ run n (SYMBOL N_quoted_word) s
        @ run n (SYMBOL N_variable_substitution) s"
proof -
  have "run (Suc n) expr s = run (Suc n) (SYMBOL N_h_expr_atom_no_brace) s"
    using assms by (simp add: expr_def del: run_SYMBOL)
  also have "\<dots> = run n h_expr_atom_no_brace s"
    by (simp add: externals_def)
  also have "\<dots> =
      run n (SYMBOL N_h_number) s @ run n (SYMBOL N_h_boolean) s
        @ run n (SEQ [SYMBOL N_simple_word, STRING ''('', SYMBOL N_h_expr, STRING '')'']) s
        @ run n (SYMBOL N_command_substitution) s @ run n (SYMBOL N_quoted_word) s
        @ run n (SYMBOL N_variable_substitution) s"
    unfolding h_expr_atom_no_brace_def by (simp del: run_SYMBOL)
  finally show ?thesis .
qed

lemma expr_braced: "set (run n (SEQ [STRING ''{'', SYMBOL N_h_expr, STRING ''}'']) s) \<subseteq> set (run n expr s)"
  by (simp add: expr_def del: run_SYMBOL)

lemma expr_operators:
  "set (run n (SYMBOL N_unary_expr) s) \<union> set (run n (SYMBOL N_binop_expr) s)
       \<union> set (run n (SYMBOL N_ternary_expr) s) \<union> set (run n (SYMBOL N_braced_word_simple) s)
     \<subseteq> set (run (Suc n) (SYMBOL N_h_expr) s)"
proof -
  have 1: "run (Suc n) (SYMBOL N_h_expr) s = run n h_expr s"
    by (simp add: externals_def)
  have 2: "run n h_expr s =
      run n (SYMBOL N_unary_expr) s @ run n (SYMBOL N_binop_expr) s
      @ run n (SYMBOL N_ternary_expr) s @ run n (SYMBOL N_escaped_character) s
      @ run n (SEQ [STRING ''('', SYMBOL N_h_expr, STRING '')'']) s
      @ run n (SYMBOL N_h_expr_atom_no_brace) s @ run n (SYMBOL N_command_substitution) s
      @ run n (SYMBOL N_braced_word_simple) s"
    unfolding h_expr_def by (simp del: run_SYMBOL)
  show ?thesis unfolding 1 2 set_append by blast
qed

lemma expr_atoms_accepted:
  "list_all (accepts 8 expr_cmd)
     [''expr 42'', ''expr true'', ''expr sin(1)'', ''expr [foo]'',
      [CHR ''e'', CHR ''x'', CHR ''p'', CHR ''r'', CHR '' '', dquote, CHR ''a'', dquote],
      ''expr $x'']"
  by code_simp

lemma expr_braced_accepted:
  "list_all (accepts 7 expr_cmd)
     [''expr {1 + 2}'', ''expr {!1}'', ''expr {1 ? 2 : 3}'', ''expr {1 + {raw text}}'']"
  by code_simp

lemma expr_unbraced_rejected_each:
  "\<not> accepts n expr_cmd ''expr 1 + 2'' \<and> \<not> accepts n expr_cmd ''expr !1''
   \<and> \<not> accepts n expr_cmd ''expr 1 ? 2 : 3'' \<and> \<not> accepts n expr_cmd ''expr -$x''"
  by (intro conjI;
      simp add: accepts_def finished_def expr_defs tok_defs word_defs
        del: eval_del split: nat.split)

lemma expr_unbraced_rejected:
  "list_all (\<lambda>s. \<not> accepts n expr_cmd s)
     [''expr 1 + 2'', ''expr !1'', ''expr 1 ? 2 : 3'', ''expr -$x'']"
  using expr_unbraced_rejected_each [of n] by (simp only: list.pred_inject simp_thms)

text \<open>
  C4. Where no brace opens the text, \<^verbatim>\<open>expr\<close> matches what one atom matches: a number,
  a boolean, a call \<^verbatim>\<open>name(expression)\<close>, a command substitution, a quoted word or a
  variable substitution. An atom of each kind is accepted as the operand of the command;
  a binary, a unary or a ternary operator outside braces is accepted at no depth. Between
  braces \<^verbatim>\<open>expr\<close> matches whatever \<^verbatim>\<open>_expr\<close> matches, and that includes the unary, binary and
  ternary expressions and the braced raw literal; an expression of each kind between
  braces is accepted.
\<close>

theorem expr_forms:
  "(run n (STRING ''{'') s = [] \<longrightarrow>
      run (Suc n) expr s =
      run n (SYMBOL N_h_number) s @ run n (SYMBOL N_h_boolean) s
        @ run n (SEQ [SYMBOL N_simple_word, STRING ''('', SYMBOL N_h_expr, STRING '')'']) s
        @ run n (SYMBOL N_command_substitution) s @ run n (SYMBOL N_quoted_word) s
        @ run n (SYMBOL N_variable_substitution) s)
   \<and> list_all (accepts 8 expr_cmd)
     [''expr 42'', ''expr true'', ''expr sin(1)'', ''expr [foo]'',
      [CHR ''e'', CHR ''x'', CHR ''p'', CHR ''r'', CHR '' '', dquote, CHR ''a'', dquote],
      ''expr $x'']
   \<and> list_all (\<lambda>s. \<not> accepts n expr_cmd s)
     [''expr 1 + 2'', ''expr !1'', ''expr 1 ? 2 : 3'', ''expr -$x'']
   \<and> set (run n (SEQ [STRING ''{'', SYMBOL N_h_expr, STRING ''}'']) s) \<subseteq> set (run n expr s)
   \<and> set (run n (SYMBOL N_unary_expr) s) \<union> set (run n (SYMBOL N_binop_expr) s)
       \<union> set (run n (SYMBOL N_ternary_expr) s) \<union> set (run n (SYMBOL N_braced_word_simple) s)
     \<subseteq> set (run (Suc n) (SYMBOL N_h_expr) s)
   \<and> list_all (accepts 7 expr_cmd)
     [''expr {1 + 2}'', ''expr {!1}'', ''expr {1 ? 2 : 3}'', ''expr {1 + {raw text}}'']"
  using expr_unbraced [of n s] expr_atoms_accepted expr_unbraced_rejected [of n]
    expr_braced [of n s] expr_operators [of n s] expr_braced_accepted
  by (intro conjI impI)

theorem expr_forms_witness:
  "run 4 (STRING ''{'') '' 42'' = []
   \<and> run (Suc 4) expr '' 42'' =
      run 4 (SYMBOL N_h_number) '' 42'' @ run 4 (SYMBOL N_h_boolean) '' 42''
        @ run 4 (SEQ [SYMBOL N_simple_word, STRING ''('', SYMBOL N_h_expr, STRING '')'']) '' 42''
        @ run 4 (SYMBOL N_command_substitution) '' 42'' @ run 4 (SYMBOL N_quoted_word) '' 42''
        @ run 4 (SYMBOL N_variable_substitution) '' 42''
   \<and> \<not> accepts 4 expr_cmd ''expr 1 + 2''"
proof -
  have 1: "run 4 (STRING ''{'') '' 42'' = []"
    by code_simp
  note inst = expr_forms [where n = 4 and s = "'' 42''"]
  from inst have 2: "\<not> accepts 4 expr_cmd ''expr 1 + 2''"
    by (simp only: list.pred_inject simp_thms)
  from inst 1 2 show ?thesis
    by blast
qed

end
